theory Spec2Isabelle
  imports Main
begin

section \<open>Values, errors and the persisted file\<close>

text \<open>
  The application keeps its catalog in \<^verbatim>\<open>course_catalog.json\<close> and handles it as
  whatever Python value \<^verbatim>\<open>json.load\<close> gives back. The values below are those
  Python values: \<open>JNull\<close> is \<^verbatim>\<open>None\<close>, \<open>JArr\<close> a list, \<open>JObj\<close> a dict with
  its items in insertion order (keys distinct). Numbers are integers only; the
  application never produces a number.
\<close>

datatype json =
    JNull
  | JBool bool
  | JInt int
  | JStr string
  | JArr "json list"
  | JObj "(string \<times> json) list"

datatype py_error = JSONDecodeError | TypeError | KeyError | AttributeError

text \<open>
  The backing file is absent, or holds text that \<^verbatim>\<open>json.load\<close> rejects, or holds
  the document \<^verbatim>\<open>json.dump\<close> wrote: the text itself is not modelled, a file
  written from a value reads back as that value.
\<close>

datatype file_state = Absent | Malformed | Doc json

text \<open>
  The world a handler runs in: the file, the log of documents written to it (one
  entry for each \<^verbatim>\<open>open(COURSE_FILE, 'w')\<close> with its dump), and the flashed
  messages with their categories.
\<close>

record world =
  course_file :: file_state
  written :: "json list"
  flashed :: "(string \<times> string) list"

datatype http_method = GET | POST

text \<open>The request as the handlers read it: \<^verbatim>\<open>request.method\<close> and \<^verbatim>\<open>request.form\<close>.\<close>

record request =
  req_method :: http_method
  form :: "string \<rightharpoonup> string"

datatype response =
    Render string "(string \<times> json) list"
  | Redirect string

section \<open>The Python operations the handlers use\<close>

text \<open>Truth value of a Python object, as \<^verbatim>\<open>all(...)\<close> and \<^verbatim>\<open>not\<close> take it.\<close>

fun truthy :: "json \<Rightarrow> bool" where
  "truthy JNull = False"
| "truthy (JBool b) = b"
| "truthy (JInt n) = (n \<noteq> 0)"
| "truthy (JStr s) = (s \<noteq> [])"
| "truthy (JArr xs) = (xs \<noteq> [])"
| "truthy (JObj kvs) = (kvs \<noteq> [])"

text \<open>
  Iterating a value: a list gives its elements, a dict its keys, a string its
  characters; anything else is not iterable.
\<close>

fun py_iter :: "json \<Rightarrow> py_error + json list" where
  "py_iter (JArr xs) = Inr xs"
| "py_iter (JObj kvs) = Inr (map (\<lambda>kv. JStr (fst kv)) kvs)"
| "py_iter (JStr s) = Inr (map (\<lambda>c. JStr [c]) s)"
| "py_iter v = Inl TypeError"

text \<open>\<^verbatim>\<open>v[k]\<close> with a string key \<open>k\<close>: only a dict accepts it.\<close>

fun py_getitem :: "json \<Rightarrow> string \<Rightarrow> py_error + json" where
  "py_getitem (JObj kvs) k =
     (case map_of kvs k of None \<Rightarrow> Inl KeyError | Some v \<Rightarrow> Inr v)"
| "py_getitem v k = Inl TypeError"

text \<open>\<^verbatim>\<open>v.append(x)\<close>: only a list has it.\<close>

fun py_append :: "json \<Rightarrow> json \<Rightarrow> py_error + json" where
  "py_append (JArr xs) x = Inr (JArr (xs @ [x]))"
| "py_append v x = Inl AttributeError"

fun py_len :: "json \<Rightarrow> py_error + nat" where
  "py_len (JArr xs) = Inr (length xs)"
| "py_len (JObj kvs) = Inr (length kvs)"
| "py_len (JStr s) = Inr (length s)"
| "py_len v = Inl TypeError"

fun py_values :: "json \<Rightarrow> json list" where
  "py_values (JObj kvs) = map snd kvs"
| "py_values v = []"

section \<open>The record store\<close>

text \<open>
  \<^verbatim>\<open>load_courses\<close>: the empty list when the file does not exist, otherwise
  whatever \<^verbatim>\<open>json.load\<close> returns or raises. It opens the file for reading only.
\<close>

definition load_courses :: "world \<Rightarrow> py_error + json" where
  "load_courses w =
     (case course_file w of
        Absent \<Rightarrow> Inr (JArr [])
      | Malformed \<Rightarrow> Inl JSONDecodeError
      | Doc v \<Rightarrow> Inr v)"

text \<open>
  \<^verbatim>\<open>save_courses(data)\<close>: loads the stored collection again, appends \<open>data\<close> to
  it and rewrites the whole file. An exception before the write leaves the world as
  it was.
\<close>

definition save_courses :: "json \<Rightarrow> world \<Rightarrow> (py_error + unit) \<times> world" where
  "save_courses data w =
     (case load_courses w of
        Inl e \<Rightarrow> (Inl e, w)
      | Inr courses \<Rightarrow>
          (case py_append courses data of
             Inl e \<Rightarrow> (Inl e, w)
           | Inr courses' \<Rightarrow>
               (Inr (), w\<lparr>course_file := Doc courses',
                         written := written w @ [courses']\<rparr>)))"

section \<open>The request handlers\<close>

definition flash :: "string \<Rightarrow> string \<Rightarrow> world \<Rightarrow> world" where
  "flash msg category w = w\<lparr>flashed := flashed w @ [(msg, category)]\<rparr>"

definition field_names :: "string list" where
  "field_names = [''code'', ''name'', ''instructor'', ''semester'', ''schedule'',
                  ''classroom'', ''prerequisites'', ''grading'', ''description'']"

text \<open>\<^verbatim>\<open>request.form.get(k)\<close>: the submitted string, or \<^verbatim>\<open>None\<close>.\<close>

definition form_get :: "(string \<rightharpoonup> string) \<Rightarrow> string \<Rightarrow> json" where
  "form_get f k = (case f k of None \<Rightarrow> JNull | Some s \<Rightarrow> JStr s)"

text \<open>The dict that \<^verbatim>\<open>add_course\<close> builds from the form, keys in the source's order.\<close>

definition course_of_form :: "(string \<rightharpoonup> string) \<Rightarrow> json" where
  "course_of_form f = JObj (map (\<lambda>k. (k, form_get f k)) field_names)"

text \<open>
  \<^verbatim>\<open>any(existing_course["code"] == code for existing_course in courses)\<close>: the
  generator stops at the first match, and an element that cannot be subscripted
  raises when the scan reaches it. Here \<open>code\<close> is always a string (it passed the
  validation), and Python's \<^verbatim>\<open>==\<close> against a string holds exactly for an equal string.
\<close>

fun any_code_eq :: "json list \<Rightarrow> json \<Rightarrow> py_error + bool" where
  "any_code_eq [] code = Inr False"
| "any_code_eq (existing_course # rest) code =
     (case py_getitem existing_course ''code'' of
        Inl e \<Rightarrow> Inl e
      | Inr v \<Rightarrow> if v = code then Inr True else any_code_eq rest code)"

text \<open>
  \<^verbatim>\<open>next((course for course in courses if course['code'] == code), None)\<close>: the
  first match, \<^verbatim>\<open>None\<close> when the scan ends without one.
\<close>

fun next_with_code :: "json list \<Rightarrow> string \<Rightarrow> py_error + json" where
  "next_with_code [] code = Inr JNull"
| "next_with_code (course # rest) code =
     (case py_getitem course ''code'' of
        Inl e \<Rightarrow> Inl e
      | Inr v \<Rightarrow> if v = JStr code then Inr course else next_with_code rest code)"

definition index :: "world \<Rightarrow> (py_error + response) \<times> world" where
  "index w = (Inr (Render ''index.html'' []), w)"

text \<open>
  The catalog page: \<^verbatim>\<open>len(courses)\<close> goes to the span, so a loaded value without a
  length raises before the template is rendered.
\<close>

definition course_catalog :: "world \<Rightarrow> (py_error + response) \<times> world" where
  "course_catalog w =
     (case load_courses w of
        Inl e \<Rightarrow> (Inl e, w)
      | Inr courses \<Rightarrow>
          (case py_len courses of
             Inl e \<Rightarrow> (Inl e, w)
           | Inr n \<Rightarrow> (Inr (Render ''course_catalog.html'' [(''courses'', courses)]), w)))"

text \<open>
  \<^verbatim>\<open>add_course\<close>, the handler of GET and POST \<^verbatim>\<open>/add_course\<close>. The tracing span
  around each handler only records attributes and is left out. \<^verbatim>\<open>course["code"]\<close> is
  the value just read from the form. After the duplicate scan the handler appends the
  course to the list it loaded and calls \<^verbatim>\<open>save_courses\<close> with that list.
\<close>

definition add_course :: "request \<Rightarrow> world \<Rightarrow> (py_error + response) \<times> world" where
  "add_course req w =
     (if req_method req = POST then
        (let course = course_of_form (form req) in
         if list_all truthy (py_values course) then
           (case load_courses w of
              Inl e \<Rightarrow> (Inl e, w)
            | Inr courses \<Rightarrow>
                (case py_iter courses of
                   Inl e \<Rightarrow> (Inl e, w)
                 | Inr existing \<Rightarrow>
                     (case any_code_eq existing (form_get (form req) ''code'') of
                        Inl e \<Rightarrow> (Inl e, w)
                      | Inr True \<Rightarrow>
                          (Inr (Render ''add_course.html'' []),
                           flash ''A course with this code already exists!'' ''danger'' w)
                      | Inr False \<Rightarrow>
                          (case py_append courses course of
                             Inl e \<Rightarrow> (Inl e, w)
                           | Inr courses' \<Rightarrow>
                               (case save_courses courses' w of
                                  (Inl e, w') \<Rightarrow> (Inl e, w')
                                | (Inr u, w') \<Rightarrow>
                                    (Inr (Redirect ''/catalog''),
                                     flash ''Course added successfully!'' ''success'' w'))))))
         else
           (Inr (Render ''add_course.html'' []),
            flash ''All fields are required!'' ''danger'' w))
      else (Inr (Render ''add_course.html'' []), w))"

text \<open>
  The details page: the first stored course with the requested code, or the not-found
  message and a redirect when \<^verbatim>\<open>next\<close> gave \<^verbatim>\<open>None\<close> (or any falsy value).
\<close>

definition course_details :: "string \<Rightarrow> world \<Rightarrow> (py_error + response) \<times> world" where
  "course_details code w =
     (case load_courses w of
        Inl e \<Rightarrow> (Inl e, w)
      | Inr courses \<Rightarrow>
          (case py_iter courses of
             Inl e \<Rightarrow> (Inl e, w)
           | Inr cs \<Rightarrow>
               (case next_with_code cs code of
                  Inl e \<Rightarrow> (Inl e, w)
                | Inr course \<Rightarrow>
                    if \<not> truthy course then
                      (Inr (Redirect ''/catalog''),
                       flash (''No course found with code '' @ [CHR 0x27] @ code @ [CHR 0x27] @ ''.'')
                         ''error'' w)
                    else (Inr (Render ''course_details.html'' [(''course'', course)]), w))))"

section \<open>Scenarios and predicates of the statements\<close>

text \<open>Writing a sequence of records through \<^verbatim>\<open>save_courses\<close>, one call each, in order.\<close>

fun save_each :: "json list \<Rightarrow> world \<Rightarrow> (py_error + unit) \<times> world" where
  "save_each [] w = (Inr (), w)"
| "save_each (c # cs) w =
     (case save_courses c w of
        (Inl e, w') \<Rightarrow> (Inl e, w')
      | (Inr u, w') \<Rightarrow> save_each cs w')"

text \<open>A stored element that \<^verbatim>\<open>c['code']\<close> can read: a dict with the key \<open>code\<close>.\<close>

definition has_code :: "json \<Rightarrow> bool" where
  "has_code c = (case py_getitem c ''code'' of Inl e \<Rightarrow> False | Inr v \<Rightarrow> True)"

text \<open>A form field that was submitted with a non-empty value.\<close>

definition filled :: "(string \<rightharpoonup> string) \<Rightarrow> string \<Rightarrow> bool" where
  "filled f k = (case f k of None \<Rightarrow> False | Some s \<Rightarrow> s \<noteq> [])"

text \<open>The course of the specification's scenario, and a second one.\<close>

definition cs101_form :: "string \<rightharpoonup> string" where
  "cs101_form = map_of
     [(''code'', ''CS101''), (''name'', ''Intro''), (''instructor'', ''A''),
      (''semester'', ''F24''), (''schedule'', ''MWF''), (''classroom'', ''101''),
      (''prerequisites'', ''None''), (''grading'', ''Letter''),
      (''description'', ''Intro course'')]"

definition cs101 :: json where
  "cs101 = JObj
     [(''code'', JStr ''CS101''), (''name'', JStr ''Intro''), (''instructor'', JStr ''A''),
      (''semester'', JStr ''F24''), (''schedule'', JStr ''MWF''), (''classroom'', JStr ''101''),
      (''prerequisites'', JStr ''None''), (''grading'', JStr ''Letter''),
      (''description'', JStr ''Intro course'')]"

definition ma101 :: json where
  "ma101 = JObj
     [(''code'', JStr ''MA101''), (''name'', JStr ''Calculus''), (''instructor'', JStr ''B''),
      (''semester'', JStr ''F24''), (''schedule'', JStr ''TTh''), (''classroom'', JStr ''202''),
      (''prerequisites'', JStr ''None''), (''grading'', JStr ''Letter''),
      (''description'', JStr ''Limits and derivatives'')]"

definition fresh_world :: world where
  "fresh_world = \<lparr>course_file = Absent, written = [], flashed = []\<rparr>"

definition ma101_world :: world where
  "ma101_world = \<lparr>course_file = Doc (JArr [ma101]), written = [], flashed = []\<rparr>"

definition malformed_world :: world where
  "malformed_world = \<lparr>course_file = Malformed, written = [], flashed = []\<rparr>"

definition post_cs101 :: request where
  "post_cs101 = \<lparr>req_method = POST, form = cs101_form\<rparr>"

definition get_request :: request where
  "get_request = \<lparr>req_method = GET, form = Map.empty\<rparr>"

lemmas example_defs =
  cs101_form_def cs101_def ma101_def fresh_world_def ma101_world_def malformed_world_def
  post_cs101_def get_request_def

lemmas handler_defs =
  add_course_def course_details_def course_catalog_def index_def save_courses_def
  load_courses_def flash_def course_of_form_def form_get_def field_names_def Let_def

section \<open>Facts about the store and the scans\<close>

lemma course_of_cs101_form: "course_of_form cs101_form = cs101"
  by (simp add: course_of_form_def cs101_form_def cs101_def field_names_def form_get_def)

lemma load_courses_update [simp]:
  "load_courses (w\<lparr>course_file := Doc v, written := ws\<rparr>) = Inr v"
  "load_courses (w\<lparr>flashed := fs\<rparr>) = load_courses w"
  by (simp_all add: load_courses_def)

lemma save_courses_list:
  "load_courses w = Inr (JArr L) \<Longrightarrow>
   save_courses c w =
     (Inr (), w\<lparr>course_file := Doc (JArr (L @ [c])), written := written w @ [JArr (L @ [c])]\<rparr>)"
  by (simp add: save_courses_def)

lemma save_each_list:
  "load_courses w = Inr (JArr L) \<Longrightarrow>
   fst (save_each cs w) = Inr () \<and>
   load_courses (snd (save_each cs w)) = Inr (JArr (L @ cs)) \<and>
   length (written (snd (save_each cs w))) = length (written w) + length cs"
proof (induction cs arbitrary: w L)
  case Nil
  then show ?case by simp
next
  case (Cons c cs)
  let ?w' = "w\<lparr>course_file := Doc (JArr (L @ [c])), written := written w @ [JArr (L @ [c])]\<rparr>"
  have step: "save_courses c w = (Inr (), ?w')"
    using Cons.prems by (rule save_courses_list)
  have "load_courses ?w' = Inr (JArr (L @ [c]))" by simp
  from Cons.IH [OF this] show ?case
    by (simp add: step)
qed

lemma valid_form_iff:
  "list_all truthy (py_values (course_of_form f)) = list_all (filled f) field_names"
  by (simp add: course_of_form_def list_all_iff form_get_def filled_def split: option.splits)

lemma any_code_eq_has_code:
  "list_all has_code L \<Longrightarrow>
   any_code_eq L c = Inr (list_ex (\<lambda>x. py_getitem x ''code'' = Inr c) L)"
  by (induction L) (auto simp: has_code_def split: sum.splits)

lemma any_code_eq_append:
  "any_code_eq L c = Inr False \<Longrightarrow> any_code_eq (L @ M) c = any_code_eq M c"
  by (induction L) (auto split: sum.splits if_splits)

lemma next_with_code_has_code:
  "list_all has_code L \<Longrightarrow>
   next_with_code L code =
     Inr (case find (\<lambda>c. py_getitem c ''code'' = Inr (JStr code)) L of
            None \<Rightarrow> JNull | Some c \<Rightarrow> c)"
  by (induction L) (auto simp: has_code_def split: sum.splits)

lemma has_code_truthy: "has_code c \<Longrightarrow> truthy c"
  by (cases c) (auto simp: has_code_def)

lemma find_has_code:
  "list_all has_code L \<Longrightarrow> find P L = Some c \<Longrightarrow> has_code c"
  by (induction L) (auto split: if_splits)

section \<open>What \<^verbatim>\<open>add_course\<close> does to the store\<close>

text \<open>
  A successful POST stores, after the old elements, one new element: the list that
  \<^verbatim>\<open>add_course\<close> built (the old elements and the new course), because that whole
  list is what it hands to \<^verbatim>\<open>save_courses\<close>, which appends its argument to the
  collection it loads itself.
\<close>

lemma add_course_success:
  assumes "req_method req = POST" and "list_all (filled (form req)) field_names"
    and "load_courses w = Inr (JArr L)"
    and "any_code_eq L (form_get (form req) ''code'') = Inr False"
  shows "add_course req w =
           (Inr (Redirect ''/catalog''),
            flash ''Course added successfully!'' ''success''
              (w\<lparr>course_file := Doc (JArr (L @ [JArr (L @ [course_of_form (form req)])])),
                 written := written w @ [JArr (L @ [JArr (L @ [course_of_form (form req)])])]\<rparr>))"
  using assms by (simp add: add_course_def Let_def valid_form_iff save_courses_list)

lemma add_course_duplicate:
  assumes "req_method req = POST" and "list_all (filled (form req)) field_names"
    and "load_courses w = Inr (JArr L)"
    and "any_code_eq L (form_get (form req) ''code'') = Inr True"
  shows "add_course req w =
           (Inr (Render ''add_course.html'' []),
            flash ''A course with this code already exists!'' ''danger'' w)"
  using assms by (simp add: add_course_def Let_def valid_form_iff)

text \<open>
  Whatever the request and the file: either nothing is written and the file is as it
  was, or the call redirects after exactly one write of the collection just described.
\<close>

lemma add_course_all_or_nothing:
  "(course_file (snd (add_course req w)) = course_file w \<and>
    written (snd (add_course req w)) = written w) \<or>
   (\<exists>L. load_courses w = Inr (JArr L) \<and> req_method req = POST \<and>
        fst (add_course req w) = Inr (Redirect ''/catalog'') \<and>
        course_file (snd (add_course req w)) =
          Doc (JArr (L @ [JArr (L @ [course_of_form (form req)])])) \<and>
        written (snd (add_course req w)) =
          written w @ [JArr (L @ [JArr (L @ [course_of_form (form req)])])])"
proof (cases "load_courses w")
  case (Inl e)
  then show ?thesis
    by (simp add: add_course_def Let_def flash_def)
next
  case (Inr courses)
  show ?thesis
  proof (cases courses)
    case (JArr L)
    show ?thesis
    proof (cases "any_code_eq L (form_get (form req) ''code'')")
      case (Inl e)
      then show ?thesis
        using Inr JArr by (simp add: add_course_def Let_def flash_def)
    next
      case b: (Inr b)
      then show ?thesis
        using Inr JArr
        by (cases b) (simp_all add: add_course_def Let_def flash_def save_courses_list)
    qed
  qed (use Inr in \<open>auto simp: add_course_def Let_def flash_def split: sum.splits bool.splits\<close>)
qed

text \<open>
  Once a POST has succeeded, every later POST with all fields filled and the same code
  raises: the scan for the code reaches the stored list and subscripts it with a string.
\<close>

lemma add_course_repeat_raises:
  assumes "req_method req = POST" and "list_all (filled (form req)) field_names"
    and "load_courses w = Inr (JArr L)"
    and "any_code_eq L (form_get (form req) ''code'') = Inr False"
    and "req_method req' = POST" and "list_all (filled (form req')) field_names"
    and "form req' ''code'' = form req ''code''"
  shows "add_course req' (snd (add_course req w)) = (Inl TypeError, snd (add_course req w))"
proof -
  let ?nested = "JArr (L @ [course_of_form (form req)])"
  let ?w1 = "flash ''Course added successfully!'' ''success''
              (w\<lparr>course_file := Doc (JArr (L @ [?nested])),
                 written := written w @ [JArr (L @ [?nested])]\<rparr>)"
  have first: "add_course req w = (Inr (Redirect ''/catalog''), ?w1)"
    using assms(1-4) by (rule add_course_success)
  have loaded: "load_courses ?w1 = Inr (JArr (L @ [?nested]))"
    by (simp add: flash_def)
  have code: "form_get (form req') ''code'' = form_get (form req) ''code''"
    using assms(7) by (simp add: form_get_def)
  have "any_code_eq (L @ [?nested]) (form_get (form req') ''code'') = Inl TypeError"
    using assms(4) by (simp add: code any_code_eq_append)
  then have "add_course req' ?w1 = (Inl TypeError, ?w1)"
    using assms(5,6) loaded by (simp add: add_course_def Let_def valid_form_iff)
  then show ?thesis
    by (simp add: first)
qed

section \<open>The claims\<close>

subsection \<open>C1: adding to a catalog and listing it\<close>

text \<open>
  C1 says that after a POST with nine non-empty fields and a code that is not yet stored,
  the listing ends with the submitted record, the earlier records unchanged before it.
  The code does not do that. On the scenario of the specification (no file yet, the course
  CS101) the call succeeds, and the collection then loaded is \<open>[[cs101]]\<close>: its last
  element is the one-element list holding the record, not the record.
\<close>

theorem add_course_stores_nested_list:
  "fst (add_course post_cs101 fresh_world) = Inr (Redirect ''/catalog'') \<and>
   load_courses (snd (add_course post_cs101 fresh_world)) = Inr (JArr [JArr [cs101]]) \<and>
   load_courses (snd (add_course post_cs101 fresh_world)) \<noteq> Inr (JArr [cs101]) \<and>
   last [JArr [cs101]] \<noteq> cs101"
  by (simp add: example_defs handler_defs)

subsection \<open>C2: a call appends one record or changes nothing\<close>

text \<open>
  C2 says that a call either appends exactly one record in one write or leaves the
  persisted collection as it was. The second half holds, and so does the single write
  (\<open>add_course_all_or_nothing\<close>); what a successful call appends is not one record.
  From the catalog \<open>[ma101]\<close> the POST of CS101 writes once, and the file then holds
  \<open>[ma101, [ma101, cs101]]\<close>: the appended element is a copy of the old catalog with
  the new record at its end.
\<close>

theorem add_course_appends_catalog_copy:
  "add_course post_cs101 ma101_world =
     (Inr (Redirect ''/catalog''),
      \<lparr>course_file = Doc (JArr [ma101, JArr [ma101, cs101]]),
       written = [JArr [ma101, JArr [ma101, cs101]]],
       flashed = [(''Course added successfully!'', ''success'')]\<rparr>) \<and>
   JArr [ma101, JArr [ma101, cs101]] \<noteq> JArr [ma101, cs101]"
  by (simp add: example_defs handler_defs)

subsection \<open>C3: \<^verbatim>\<open>save_courses\<close> appends its argument\<close>

text \<open>
  C3: when the store holds the collection \<open>L\<close> (the file absent counts as the empty
  one), \<^verbatim>\<open>save_courses(c)\<close> returns normally, and loading afterwards gives \<open>L\<close>
  followed by \<open>c\<close> as its single new last element. The file is written once, with that
  collection, and nothing is flashed.
\<close>

theorem save_courses_appends:
  assumes "load_courses w = Inr (JArr L)"
  shows "fst (save_courses c w) = Inr () \<and>
         load_courses (snd (save_courses c w)) = Inr (JArr (L @ [c])) \<and>
         written (snd (save_courses c w)) = written w @ [JArr (L @ [c])] \<and>
         flashed (snd (save_courses c w)) = flashed w"
  using assms by (simp add: save_courses_list)

theorem save_courses_appends_witness:
  "load_courses ma101_world = Inr (JArr [ma101]) \<and>
   fst (save_courses cs101 ma101_world) = Inr () \<and>
   load_courses (snd (save_courses cs101 ma101_world)) = Inr (JArr [ma101, cs101])"
proof -
  have l: "load_courses ma101_world = Inr (JArr [ma101])"
    by (simp add: load_courses_def ma101_world_def)
  show ?thesis
    using l save_courses_appends [OF l, of cs101] by simp
qed

subsection \<open>C4: a missing field\<close>

text \<open>
  C4: a POST in which one of the nine fields is absent or is the empty string flashes
  \<^verbatim>\<open>All fields are required!\<close> and shows the form again; nothing is written, the file
  is as before and loading it gives what it gave before the call. This holds whatever the
  file holds, since the store is not read on this path.
\<close>

theorem add_course_missing_fields:
  assumes "req_method req = POST" and "k \<in> set field_names"
    and "form req k = None \<or> form req k = Some []"
  shows "add_course req w =
           (Inr (Render ''add_course.html'' []),
            flash ''All fields are required!'' ''danger'' w) \<and>
         course_file (snd (add_course req w)) = course_file w \<and>
         written (snd (add_course req w)) = written w \<and>
         load_courses (snd (add_course req w)) = load_courses w"
proof -
  have "\<not> filled (form req) k"
    using assms(3) by (auto simp: filled_def)
  with assms(2) have "\<not> list_all (filled (form req)) field_names"
    by (auto simp: list_all_iff)
  then have "add_course req w =
           (Inr (Render ''add_course.html'' []),
            flash ''All fields are required!'' ''danger'' w)"
    using assms(1) by (simp add: add_course_def Let_def valid_form_iff)
  then show ?thesis
    by (simp add: flash_def)
qed

theorem add_course_missing_fields_witness:
  "req_method \<lparr>req_method = POST, form = cs101_form(''grading'' \<mapsto> [])\<rparr> = POST \<and>
   ''grading'' \<in> set field_names \<and>
   (cs101_form(''grading'' \<mapsto> [])) ''grading'' = Some [] \<and>
   add_course \<lparr>req_method = POST, form = cs101_form(''grading'' \<mapsto> [])\<rparr> ma101_world =
     (Inr (Render ''add_course.html'' []),
      flash ''All fields are required!'' ''danger'' ma101_world) \<and>
   load_courses
     (snd (add_course \<lparr>req_method = POST, form = cs101_form(''grading'' \<mapsto> [])\<rparr> ma101_world))
     = Inr (JArr [ma101])"
  using add_course_missing_fields
    [of "\<lparr>req_method = POST, form = cs101_form(''grading'' \<mapsto> [])\<rparr>" "''grading''" ma101_world]
  by (simp add: field_names_def ma101_world_def load_courses_def flash_def)

subsection \<open>C5: the same code twice\<close>

text \<open>
  C5 says that after a successful insertion a second POST with the same code is refused
  as a duplicate. In the code the second call raises instead: the first call left
  \<open>[[cs101]]\<close> in the file, and the duplicate scan subscripts that inner list with
  \<^verbatim>\<open>"code"\<close>, a \<^verbatim>\<open>TypeError\<close>. Nothing is flashed or written by the second call.
  \<open>add_course_repeat_raises\<close> shows the same after every successful first call.
\<close>

theorem add_course_twice_raises:
  "fst (add_course post_cs101 fresh_world) = Inr (Redirect ''/catalog'') \<and>
   add_course post_cs101 (snd (add_course post_cs101 fresh_world)) =
     (Inl TypeError, snd (add_course post_cs101 fresh_world)) \<and>
   course_file (snd (add_course post_cs101 fresh_world)) = Doc (JArr [JArr [cs101]])"
  by (simp add: example_defs handler_defs)

subsection \<open>C6: lookup by code\<close>

text \<open>
  C6: on a catalog whose elements all carry a code, \<^verbatim>\<open>course_details\<close> renders the
  first element, in stored order, whose code equals the argument, and leaves the world
  alone; when there is none it flashes the not-found message and redirects to the
  catalog. It redirects exactly when no element has that code.
\<close>

theorem course_details_first_match:
  assumes "load_courses w = Inr (JArr L)" and "list_all has_code L"
  shows "course_details code w =
           (case find (\<lambda>c. py_getitem c ''code'' = Inr (JStr code)) L of
              Some c \<Rightarrow> (Inr (Render ''course_details.html'' [(''course'', c)]), w)
            | None \<Rightarrow>
                (Inr (Redirect ''/catalog''),
                 flash (''No course found with code '' @ [CHR 0x27] @ code @ [CHR 0x27] @ ''.'')
                   ''error'' w)) \<and>
         (fst (course_details code w) = Inr (Redirect ''/catalog'')) =
           (\<not> list_ex (\<lambda>c. py_getitem c ''code'' = Inr (JStr code)) L)"
proof -
  let ?P = "\<lambda>c. py_getitem c ''code'' = Inr (JStr code)"
  have main: "course_details code w =
           (case find ?P L of
              Some c \<Rightarrow> (Inr (Render ''course_details.html'' [(''course'', c)]), w)
            | None \<Rightarrow>
                (Inr (Redirect ''/catalog''),
                 flash (''No course found with code '' @ [CHR 0x27] @ code @ [CHR 0x27] @ ''.'')
                   ''error'' w))"
  proof (cases "find ?P L")
    case None
    then show ?thesis
      using assms by (simp add: course_details_def next_with_code_has_code)
  next
    case (Some c)
    with assms(2) have "truthy c"
      by (blast intro: has_code_truthy find_has_code)
    with Some show ?thesis
      using assms by (simp add: course_details_def next_with_code_has_code)
  qed
  have "(find ?P L = None) = (\<not> list_ex ?P L)"
    by (auto simp: find_None_iff list_ex_iff)
  with main show ?thesis
    by (auto split: option.splits)
qed

theorem course_details_first_match_witness:
  "load_courses \<lparr>course_file = Doc (JArr [ma101, cs101, JObj [(''code'', JStr ''CS101'')]]),
                 written = [], flashed = []\<rparr>
     = Inr (JArr [ma101, cs101, JObj [(''code'', JStr ''CS101'')]]) \<and>
   list_all has_code [ma101, cs101, JObj [(''code'', JStr ''CS101'')]] \<and>
   fst (course_details ''CS101''
     \<lparr>course_file = Doc (JArr [ma101, cs101, JObj [(''code'', JStr ''CS101'')]]),
      written = [], flashed = []\<rparr>) = Inr (Render ''course_details.html'' [(''course'', cs101)]) \<and>
   fst (course_details ''CS999''
     \<lparr>course_file = Doc (JArr [ma101, cs101, JObj [(''code'', JStr ''CS101'')]]),
      written = [], flashed = []\<rparr>) = Inr (Redirect ''/catalog'')"
proof -
  let ?L = "[ma101, cs101, JObj [(''code'', JStr ''CS101'')]]"
  let ?w = "\<lparr>course_file = Doc (JArr ?L), written = [], flashed = []\<rparr>"
  have l: "load_courses ?w = Inr (JArr ?L)"
    by (simp add: load_courses_def)
  have h: "list_all has_code ?L"
    by (simp add: has_code_def ma101_def cs101_def)
  show ?thesis
    using l h course_details_first_match [OF l h, of "''CS101''"]
      course_details_first_match [OF l h, of "''CS999''"]
    by (simp add: ma101_def cs101_def)
qed

subsection \<open>C7: no file\<close>

text \<open>
  C7: when the file does not exist, \<^verbatim>\<open>load_courses\<close> returns the empty list and does
  not raise; the catalog page is rendered with no courses and a lookup ends as not found.
\<close>

theorem load_courses_absent:
  assumes "course_file w = Absent"
  shows "load_courses w = Inr (JArr []) \<and>
         course_catalog w = (Inr (Render ''course_catalog.html'' [(''courses'', JArr [])]), w) \<and>
         course_details code w =
           (Inr (Redirect ''/catalog''),
            flash (''No course found with code '' @ [CHR 0x27] @ code @ [CHR 0x27] @ ''.'')
              ''error'' w)"
  using assms by (simp add: load_courses_def course_catalog_def course_details_def)

theorem load_courses_absent_witness:
  "course_file fresh_world = Absent \<and> load_courses fresh_world = Inr (JArr []) \<and>
   fst (course_details ''CS101'' fresh_world) = Inr (Redirect ''/catalog'')"
  using load_courses_absent [of fresh_world "''CS101''"]
  by (simp add: fresh_world_def)

subsection \<open>C8: a file that does not parse\<close>

text \<open>
  C8: when the file exists and \<^verbatim>\<open>json.load\<close> rejects its text, \<^verbatim>\<open>load_courses\<close>
  raises the decode error, and every operation that reads the store lets it through with
  the world untouched: \<^verbatim>\<open>save_courses\<close>, the catalog page, the lookup, and a POST
  whose nine fields are all filled. A POST with a missing field, and a GET of the form,
  do not read the store and show the form.
\<close>

theorem load_courses_malformed:
  assumes "course_file w = Malformed"
  shows "load_courses w = Inl JSONDecodeError \<and>
         save_courses data w = (Inl JSONDecodeError, w) \<and>
         course_catalog w = (Inl JSONDecodeError, w) \<and>
         course_details code w = (Inl JSONDecodeError, w) \<and>
         (if req_method req = POST \<and> list_all (filled (form req)) field_names
          then add_course req w = (Inl JSONDecodeError, w)
          else fst (add_course req w) = Inr (Render ''add_course.html'' []))"
  using assms
  by (simp add: load_courses_def save_courses_def course_catalog_def course_details_def
      add_course_def Let_def valid_form_iff)

theorem load_courses_malformed_witness:
  "course_file malformed_world = Malformed \<and>
   load_courses malformed_world = Inl JSONDecodeError \<and>
   course_catalog malformed_world = (Inl JSONDecodeError, malformed_world) \<and>
   add_course post_cs101 malformed_world = (Inl JSONDecodeError, malformed_world)"
  using load_courses_malformed [of malformed_world cs101 "''CS101''" post_cs101]
  by (simp add: malformed_world_def post_cs101_def cs101_form_def filled_def field_names_def)

subsection \<open>C9: writing records and loading them\<close>

text \<open>
  C9: starting with no file, or with a file holding the empty list, writing the records
  \<open>cs\<close> one after another through \<^verbatim>\<open>save_courses\<close> succeeds with one write for each
  record, and loading afterwards returns exactly \<open>cs\<close>: as many records, each equal to
  the one written, in the order written.
\<close>

theorem save_each_round_trip:
  assumes "course_file w = Absent \<or> course_file w = Doc (JArr [])"
  shows "fst (save_each cs w) = Inr () \<and>
         load_courses (snd (save_each cs w)) = Inr (JArr cs) \<and>
         length (written (snd (save_each cs w))) = length (written w) + length cs"
proof -
  have "load_courses w = Inr (JArr [])"
    using assms by (auto simp: load_courses_def)
  from save_each_list [OF this, of cs] show ?thesis by simp
qed

theorem save_each_round_trip_witness:
  "(course_file fresh_world = Absent \<or> course_file fresh_world = Doc (JArr [])) \<and>
   fst (save_each [ma101, cs101] fresh_world) = Inr () \<and>
   load_courses (snd (save_each [ma101, cs101] fresh_world)) = Inr (JArr [ma101, cs101])"
  using save_each_round_trip [of fresh_world "[ma101, cs101]"]
  by (simp add: fresh_world_def)

subsection \<open>C10: reading does not write\<close>

text \<open>
  C10: the landing page, the catalog page and the lookup leave the file and the log of
  writes as they were (\<^verbatim>\<open>load_courses\<close> itself only returns a value); a GET of
  \<^verbatim>\<open>/add_course\<close> shows the form and changes nothing at all. Whenever a call of
  \<^verbatim>\<open>add_course\<close> does change the file or write to it, the request was a POST and the
  call ended in the redirect that follows a saved course.
\<close>

theorem reads_leave_file_unchanged:
  "snd (index w) = w \<and>
   course_file (snd (course_catalog w)) = course_file w \<and>
   written (snd (course_catalog w)) = written w \<and>
   course_file (snd (course_details code w)) = course_file w \<and>
   written (snd (course_details code w)) = written w \<and>
   (req_method req = GET \<longrightarrow> add_course req w = (Inr (Render ''add_course.html'' []), w)) \<and>
   (course_file (snd (add_course req' w')) \<noteq> course_file w' \<or>
    written (snd (add_course req' w')) \<noteq> written w' \<longrightarrow>
      req_method req' = POST \<and> fst (add_course req' w') = Inr (Redirect ''/catalog''))"
proof -
  have "course_file (snd (course_catalog w)) = course_file w \<and>
        written (snd (course_catalog w)) = written w"
    by (simp add: course_catalog_def split: sum.splits)
  moreover have "course_file (snd (course_details code w)) = course_file w \<and>
        written (snd (course_details code w)) = written w"
    by (simp add: course_details_def flash_def split: sum.splits)
  moreover have "req_method req = GET \<longrightarrow> add_course req w = (Inr (Render ''add_course.html'' []), w)"
    by (simp add: add_course_def)
  moreover have "course_file (snd (add_course req' w')) \<noteq> course_file w' \<or>
    written (snd (add_course req' w')) \<noteq> written w' \<longrightarrow>
      req_method req' = POST \<and> fst (add_course req' w') = Inr (Redirect ''/catalog'')"
    using add_course_all_or_nothing [of req' w'] by blast
  ultimately show ?thesis
    by (simp add: index_def)
qed

theorem reads_leave_file_unchanged_witness:
  "req_method get_request = GET \<and>
   add_course get_request ma101_world = (Inr (Render ''add_course.html'' []), ma101_world) \<and>
   course_file (snd (course_catalog ma101_world)) = course_file ma101_world \<and>
   written (snd (add_course post_cs101 fresh_world)) \<noteq> written fresh_world \<and>
   req_method post_cs101 = POST \<and>
   fst (add_course post_cs101 fresh_world) = Inr (Redirect ''/catalog'')"
proof -
  have g: "req_method get_request = GET"
    by (simp add: get_request_def)
  have p: "written (snd (add_course post_cs101 fresh_world)) \<noteq> written fresh_world"
    by (simp add: example_defs handler_defs)
  show ?thesis
    using g p
      reads_leave_file_unchanged [of ma101_world "''CS101''" get_request post_cs101 fresh_world]
    by simp
qed

end
